theory Spec2Isabelle
  imports Complex_Main
begin

section \<open>Python values shared by the modules\<close>

text \<open>
  Exceptions are values. \<open>ValueError\<close>, \<open>ZeroDivisionError\<close> and \<open>KeyError\<close> are the
  built-in exceptions the modelled code raises itself (the spec's \<open>ShapeError\<close> and
  \<open>ConfigError\<close> are both \<open>ValueError\<close> in the source); \<open>Raised\<close> is any exception
  coming out of a collaborator (the tensor framework, an injected strategy).
\<close>

datatype py_error = ValueError | ZeroDivisionError | KeyError | Raised string

section \<open>ppsci/utils/initializer.py\<close>

subsection \<open>Tensors and the tensor framework\<close>

datatype dtype = Float16 | Float32 | Float64

text \<open>
  A \<open>paddle.Tensor\<close> as far as the initializers look at it: its shape (a list of
  non-negative Python ints), its dtype and its value buffer. A floating-point value
  is the real number it stands for; infinities and NaN are left out.
\<close>

record tensor =
  shape :: "nat list"
  dtype :: dtype
  vals :: "real list"

definition ndim :: "tensor \<Rightarrow> nat" where
  "ndim t = length (shape t)"

definition numel :: "tensor \<Rightarrow> nat" where
  "numel t = prod_list (shape t)"

text \<open>
  The tensor framework is a collaborator and not part of the repository: its samplers
  \<open>paddle.uniform\<close> and \<open>paddle.normal\<close> and the functions \<open>math.erf\<close> and \<open>erfinv\<close> are
  parameters. A sampler reads and advances a generator state \<open>'g\<close> and may raise.
  The arithmetic of Python floats is a parameter as well: \<open>round64\<close> takes the exact
  result of an operation to the float the interpreter returns for it (IEEE binary64,
  round to nearest).
\<close>

record 'g framework =
  paddle_uniform :: "'g \<Rightarrow> nat list \<Rightarrow> dtype \<Rightarrow> real \<Rightarrow> real \<Rightarrow> (py_error + real list) \<times> 'g"
  paddle_normal :: "'g \<Rightarrow> real \<Rightarrow> real \<Rightarrow> nat list \<Rightarrow> (py_error + real list) \<times> 'g"
  math_erf :: "real \<Rightarrow> real"
  erfinv :: "real \<Rightarrow> real"
  round64 :: "real \<Rightarrow> real"

text \<open>
  The operations \<open>+\<close>, \<open>-\<close>, \<open>*\<close>, \<open>/\<close> on Python floats, \<open>math.sqrt\<close> and
  \<open>float(n)\<close> of an integer: the exact result, rounded. Division by zero is tested
  where the source divides.
\<close>

definition fadd :: "'g framework \<Rightarrow> real \<Rightarrow> real \<Rightarrow> real" where
  "fadd P x y = round64 P (x + y)"

definition fsub :: "'g framework \<Rightarrow> real \<Rightarrow> real \<Rightarrow> real" where
  "fsub P x y = round64 P (x - y)"

definition fmul :: "'g framework \<Rightarrow> real \<Rightarrow> real \<Rightarrow> real" where
  "fmul P x y = round64 P (x * y)"

definition fdiv :: "'g framework \<Rightarrow> real \<Rightarrow> real \<Rightarrow> real" where
  "fdiv P x y = round64 P (x / y)"

definition fsqrt :: "'g framework \<Rightarrow> real \<Rightarrow> real" where
  "fsqrt P x = round64 P (sqrt x)"

definition float_of_int :: "'g framework \<Rightarrow> int \<Rightarrow> real" where
  "float_of_int P n = round64 P (of_int n)"

text \<open>
  What an initializer call can change besides the tensor it is given: the generator
  state, and the messages sent to \<open>logger.warning\<close> (the arguments \<open>mean\<close>, \<open>std\<close>,
  \<open>a\<close>, \<open>b\<close> of the formatted message).
\<close>

record 'g world =
  rng :: 'g
  warnings :: "(real \<times> real \<times> real \<times> real) list"

definition set_value :: "tensor \<Rightarrow> real list \<Rightarrow> tensor" where
  "set_value t vs = t\<lparr>vals := vs\<rparr>"

definition full_like :: "tensor \<Rightarrow> real \<Rightarrow> real list" where
  "full_like t v = replicate (numel t) v"

subsection \<open>The no-grad writers\<close>

definition no_grad_uniform ::
  "'g framework \<Rightarrow> 'g world \<Rightarrow> tensor \<Rightarrow> real \<Rightarrow> real \<Rightarrow> (py_error + tensor) \<times> 'g world" where
  "no_grad_uniform P w t a b =
     (case paddle_uniform P (rng w) (shape t) (dtype t) a b of
        (Inl e, g) \<Rightarrow> (Inl e, w\<lparr>rng := g\<rparr>)
      | (Inr vs, g) \<Rightarrow> (Inr (set_value t vs), w\<lparr>rng := g\<rparr>))"

definition no_grad_normal ::
  "'g framework \<Rightarrow> 'g world \<Rightarrow> tensor \<Rightarrow> real \<Rightarrow> real \<Rightarrow> (py_error + tensor) \<times> 'g world" where
  "no_grad_normal P w t mean std =
     (case paddle_normal P (rng w) mean std (shape t) of
        (Inl e, g) \<Rightarrow> (Inl e, w\<lparr>rng := g\<rparr>)
      | (Inr vs, g) \<Rightarrow> (Inr (set_value t vs), w\<lparr>rng := g\<rparr>))"

definition no_grad_fill :: "tensor \<Rightarrow> real \<Rightarrow> tensor" where
  "no_grad_fill t v = set_value t (full_like t v)"

definition uniform ::
  "'g framework \<Rightarrow> 'g world \<Rightarrow> tensor \<Rightarrow> real \<Rightarrow> real \<Rightarrow> (py_error + tensor) \<times> 'g world" where
  "uniform P w t a b = no_grad_uniform P w t a b"

definition normal ::
  "'g framework \<Rightarrow> 'g world \<Rightarrow> tensor \<Rightarrow> real \<Rightarrow> real \<Rightarrow> (py_error + tensor) \<times> 'g world" where
  "normal P w t mean std = no_grad_normal P w t mean std"

definition constant_fill :: "tensor \<Rightarrow> real \<Rightarrow> tensor" where
  "constant_fill t v = no_grad_fill t v"

definition ones :: "tensor \<Rightarrow> tensor" where
  "ones t = no_grad_fill t 1"

definition zeros :: "tensor \<Rightarrow> tensor" where
  "zeros t = no_grad_fill t 0"

subsection \<open>Fan statistics\<close>

text \<open>
  \<open>np.prod\<close> over a list of Python ints multiplies in \<open>int64\<close> and wraps silently, and a
  Python int times an \<open>np.int64\<close> is an \<open>np.int64\<close> again. With rank 2 the receptive
  field size is the Python int \<open>1\<close> and the products are unbounded Python ints.
\<close>

definition wrap64 :: "int \<Rightarrow> int" where
  "wrap64 x = (x + 2 ^ 63) mod 2 ^ 64 - 2 ^ 63"

definition np_prod :: "nat list \<Rightarrow> int" where
  "np_prod ds = foldl (\<lambda>acc d. wrap64 (acc * int d)) 1 ds"

definition fan_mul :: "tensor \<Rightarrow> int \<Rightarrow> int \<Rightarrow> int" where
  "fan_mul t n r = (if 2 < ndim t then wrap64 (n * r) else n * r)"

definition calculate_fan_in_and_fan_out :: "tensor \<Rightarrow> bool \<Rightarrow> py_error + int \<times> int" where
  "calculate_fan_in_and_fan_out t reverse =
     (if ndim t < 2 then Inl ValueError
      else
        let (num_input_fmaps, num_output_fmaps) =
              (if reverse then (int (shape t ! 0), int (shape t ! 1))
               else (int (shape t ! 1), int (shape t ! 0)));
            receptive_field_size = (if 2 < ndim t then np_prod (drop 2 (shape t)) else 1);
            fan_in = fan_mul t num_input_fmaps receptive_field_size;
            fan_out = fan_mul t num_output_fmaps receptive_field_size
        in Inr (fan_in, fan_out))"

subsection \<open>Truncated normal\<close>

definition norm_cdf :: "'g framework \<Rightarrow> real \<Rightarrow> real" where
  "norm_cdf P x = fdiv P (fadd P 1 (math_erf P (fdiv P x (fsqrt P 2)))) 2"

text \<open>\<open>paddle.clip(x, min=a, max=b)\<close> on one element.\<close>

definition clip :: "real \<Rightarrow> real \<Rightarrow> real \<Rightarrow> real" where
  "clip a b x = min (max x a) b"

text \<open>
  The warning is sent before anything is computed, on a test between Python floats:
  \<open>mean\<close> against the floats \<open>a - 2 * std\<close> and \<open>b + 2 * std\<close>. \<open>(a - mean) / std\<close>
  divides Python floats, which raises \<open>ZeroDivisionError\<close> when \<open>std\<close> is zero. The
  operations on the tensor (\<open>erfinv_\<close>, \<open>multiply\<close>, \<open>add\<close>, \<open>clip\<close>) are the
  framework's; they are taken elementwise on the values, without the rounding of the
  tensor's dtype.
\<close>

definition no_grad_trunc_normal ::
  "'g framework \<Rightarrow> 'g world \<Rightarrow> tensor \<Rightarrow> real \<Rightarrow> real \<Rightarrow> real \<Rightarrow> real
     \<Rightarrow> (py_error + tensor) \<times> 'g world" where
  "no_grad_trunc_normal P w t mean std a b =
     (let w1 = (if mean < fsub P a (fmul P 2 std) \<or> mean > fadd P b (fmul P 2 std)
                then w\<lparr>warnings := warnings w @ [(mean, std, a, b)]\<rparr> else w)
      in if std = 0 then (Inl ZeroDivisionError, w1)
         else
           let l = norm_cdf P (fdiv P (fsub P a mean) std);
               u = norm_cdf P (fdiv P (fsub P b mean) std)
           in case paddle_uniform P (rng w1) (shape t) (dtype t)
                     (fsub P (fmul P 2 l) 1) (fsub P (fmul P 2 u) 1) of
                (Inl e, g) \<Rightarrow> (Inl e, w1\<lparr>rng := g\<rparr>)
              | (Inr xs, g) \<Rightarrow>
                  let t1 = map (erfinv P) xs;
                      t2 = map (\<lambda>x. x * fmul P std (fsqrt P 2)) t1;
                      t3 = map (\<lambda>x. x + mean) t2;
                      t4 = map (clip a b) t3
                  in (Inr (set_value t t4), w1\<lparr>rng := g\<rparr>))"

definition trunc_normal ::
  "'g framework \<Rightarrow> 'g world \<Rightarrow> tensor \<Rightarrow> real \<Rightarrow> real \<Rightarrow> real \<Rightarrow> real
     \<Rightarrow> (py_error + tensor) \<times> 'g world" where
  "trunc_normal P w t mean std a b = no_grad_trunc_normal P w t mean std a b"

subsection \<open>Xavier initialization\<close>

text \<open>
  \<open>fan_in + fan_out\<close> adds two \<open>np.int64\<close> values when the rank exceeds 2 and two Python
  ints otherwise. \<open>2.0 / float(...)\<close> raises \<open>ZeroDivisionError\<close> on zero and
  \<open>math.sqrt\<close> raises \<open>ValueError\<close> on a negative argument; the float of an integer
  is zero, or the quotient negative, exactly when the integer is. The two lines that
  compute \<open>std\<close> are the same in \<open>xavier_uniform_\<close> and \<open>xavier_normal_\<close>.
\<close>

definition fan_add :: "tensor \<Rightarrow> int \<Rightarrow> int \<Rightarrow> int" where
  "fan_add t m n = (if 2 < ndim t then wrap64 (m + n) else m + n)"

definition xavier_std :: "'g framework \<Rightarrow> tensor \<Rightarrow> real \<Rightarrow> bool \<Rightarrow> py_error + real" where
  "xavier_std P t gain reverse =
     (case calculate_fan_in_and_fan_out t reverse of
        Inl e \<Rightarrow> Inl e
      | Inr (fan_in, fan_out) \<Rightarrow>
          let s = fan_add t fan_in fan_out
          in if s = 0 then Inl ZeroDivisionError
             else if s < 0 then Inl ValueError
             else Inr (fmul P gain (fsqrt P (fdiv P 2 (float_of_int P s)))))"

definition xavier_uniform ::
  "'g framework \<Rightarrow> 'g world \<Rightarrow> tensor \<Rightarrow> real \<Rightarrow> bool \<Rightarrow> (py_error + tensor) \<times> 'g world" where
  "xavier_uniform P w t gain reverse =
     (case xavier_std P t gain reverse of
        Inl e \<Rightarrow> (Inl e, w)
      | Inr std \<Rightarrow> let k = fmul P (fsqrt P 3) std in no_grad_uniform P w t (- k) k)"

definition xavier_normal ::
  "'g framework \<Rightarrow> 'g world \<Rightarrow> tensor \<Rightarrow> real \<Rightarrow> bool \<Rightarrow> (py_error + tensor) \<times> 'g world" where
  "xavier_normal P w t gain reverse =
     (case xavier_std P t gain reverse of
        Inl e \<Rightarrow> (Inl e, w)
      | Inr std \<Rightarrow> no_grad_normal P w t 0 std)"

section \<open>examples/fsi/viv.py\<close>

subsection \<open>Metrics, checkpoints and the solver object\<close>

text \<open>
  A Python float as far as the driver looks at it: the loop starts from
  \<open>float("inf")\<close> and compares with \<open><\<close>, which is false whenever an operand is NaN.
\<close>

datatype pyfloat = NaN | NegInf | Fin real | PosInf

fun flt :: "pyfloat \<Rightarrow> pyfloat \<Rightarrow> bool" where
  "flt (Fin x) (Fin y) = (x < y)"
| "flt NegInf (Fin y) = True"
| "flt NegInf PosInf = True"
| "flt (Fin x) PosInf = True"
| "flt x y = False"

text \<open>The dict \<open>{"metric": ..., "epoch": ...}\<close>.\<close>

record metric_record =
  metric :: pyfloat
  epoch :: int

datatype model_mode = Train_mode | Eval_mode

text \<open>The last argument of \<open>save_checkpoint\<close>: \<open>"best_model"\<close>, \<open>f"epoch_{epoch_id}"\<close>, \<open>"latest"\<close>.\<close>

datatype tag = Best_model | Epoch_N int | Latest

text \<open>
  The calls the driver makes to its collaborators, in the order it makes them: the
  train-epoch strategy, the evaluation strategy, \<open>save_load.save_checkpoint\<close> (with the
  metric dict and the tag it is given), \<open>logger.scaler("eval_metric", ...)\<close> and
  \<open>lr_scheduler.step()\<close>. The \<open>logger.info\<close> lines are left out.
\<close>

datatype event =
    Train_epoch int
  | Eval_pass int
  | Save_checkpoint metric_record tag
  | Log_scalar pyfloat int
  | Lr_step

text \<open>
  The solver object: the mode of \<open>solver.model\<close>, the attributes \<open>eval\<close> tests with
  \<open>hasattr\<close>, the collaborator calls made so far, and everything the injected
  strategies own (weights, optimizer state, running aggregates) as \<open>ext\<close>.
\<close>

record 's solver =
  model_mode :: model_mode
  has_cfg :: bool
  global_step :: "int option"
  has_validator :: bool
  events :: "event list"
  ext :: 's

text \<open>
  The injected strategies \<open>ppsci.solver.train.train_epoch_func\<close> and
  \<open>ppsci.solver.eval.eval_func\<close> work on what they own and may raise; \<open>by_epoch\<close> is
  the flag of the learning-rate schedule built before the loop.
\<close>

record 's strategies =
  train_epoch_func :: "'s \<Rightarrow> int \<Rightarrow> (py_error + unit) \<times> 's"
  eval_func :: "'s \<Rightarrow> int \<Rightarrow> (py_error + pyfloat) \<times> 's"
  by_epoch :: bool

text \<open>The hyper-parameters \<open>train\<close> fixes at its top, and the values it fixes them to.\<close>

record train_config =
  epochs :: int
  save_freq :: int
  eval_during_train :: bool
  eval_freq :: int
  start_eval_epoch :: int

definition viv_config :: train_config where
  "viv_config = \<lparr>epochs = 100000, save_freq = 1000, eval_during_train = True,
                  eval_freq = 1000, start_eval_epoch = 1\<rparr>"

definition emit :: "'s solver \<Rightarrow> event \<Rightarrow> 's solver" where
  "emit solver ev = solver\<lparr>events := events solver @ [ev]\<rparr>"

subsection \<open>The evaluation function\<close>

text \<open>
  An exception of the evaluation strategy leaves \<open>eval\<close> at the call: the statements
  after it, \<open>solver.model.train()\<close> among them, do not run.
\<close>

definition eval :: "'s strategies \<Rightarrow> 's solver \<Rightarrow> int \<Rightarrow> (py_error + pyfloat) \<times> 's solver" where
  "eval S solver epoch_id =
     (let s1 = (if \<not> has_cfg solver then solver\<lparr>has_cfg := True\<rparr> else solver);
          s2 = (if global_step s1 = None then s1\<lparr>global_step := Some 0\<rparr> else s1);
          s3 = s2\<lparr>model_mode := Eval_mode\<rparr>;
          s4 = (if \<not> has_validator s3 then s3\<lparr>has_validator := True\<rparr> else s3);
          s5 = emit s4 (Eval_pass epoch_id)
      in case eval_func S (ext s5) epoch_id of
           (Inl e, x) \<Rightarrow> (Inl e, s5\<lparr>ext := x\<rparr>)
         | (Inr result, x) \<Rightarrow> (Inr result, s5\<lparr>ext := x, model_mode := Train_mode\<rparr>))"

subsection \<open>The training loop\<close>

text \<open>
  One pass of the loop body for \<open>epoch_id\<close>. \<open>best_metric\<close> is a local of \<open>train\<close>, so
  it travels beside the solver. \<open>epoch_id % eval_freq\<close> raises \<open>ZeroDivisionError\<close>
  when \<open>eval_freq\<close> is zero; the test of \<open>save_freq\<close> is guarded by \<open>save_freq > 0\<close>.
\<close>

definition train_epoch ::
  "train_config \<Rightarrow> 's strategies \<Rightarrow> int \<Rightarrow> metric_record \<times> 's solver
     \<Rightarrow> (py_error + unit) \<times> metric_record \<times> 's solver" where
  "train_epoch C S epoch_id st =
     (let best_metric = fst st;
          solver = snd st;
          s0 = emit solver (Train_epoch epoch_id)
      in
      case train_epoch_func S (ext s0) epoch_id of
        (Inl e, x) \<Rightarrow> (Inl e, best_metric, s0\<lparr>ext := x\<rparr>)
      | (Inr u, x) \<Rightarrow>
         (let s1 = s0\<lparr>ext := x\<rparr>;
              evaluated =
                (if \<not> eval_during_train C then (Inr PosInf, best_metric, s1)
                 else if eval_freq C = 0 then (Inl ZeroDivisionError, best_metric, s1)
                 else if epoch_id mod eval_freq C = 0 \<and> epoch_id \<ge> start_eval_epoch C then
                   (case eval S s1 epoch_id of
                      (Inl e, s2) \<Rightarrow> (Inl e, best_metric, s2)
                    | (Inr cur_metric, s2) \<Rightarrow>
                       (let (bm, s3) =
                              (if flt cur_metric (metric best_metric) then
                                 (let bm = best_metric\<lparr>metric := cur_metric, epoch := epoch_id\<rparr>
                                  in (bm, emit s2 (Save_checkpoint bm Best_model)))
                               else (best_metric, s2))
                        in (Inr cur_metric, bm, emit s3 (Log_scalar cur_metric epoch_id))))
                 else (Inr PosInf, best_metric, s1))
          in (case evaluated of
               (Inl e, bm, s4) \<Rightarrow> (Inl e, bm, s4)
             | (Inr cur_metric, bm, s4) \<Rightarrow>
                (let s5 = (if by_epoch S then emit s4 Lr_step else s4);
                     s6 = (if save_freq C > 0 \<and> epoch_id mod save_freq C = 0
                           then emit s5 (Save_checkpoint
                                  \<lparr>metric = cur_metric, epoch = epoch_id\<rparr> (Epoch_N epoch_id))
                           else s5);
                     s7 = emit s6 (Save_checkpoint \<lparr>metric = cur_metric, epoch = epoch_id\<rparr> Latest)
                 in (Inr (), bm, s7)))))"

text \<open>\<open>for epoch_id in range(1, epochs + 1)\<close>, stopped by the first exception.\<close>

fun train_loop ::
  "train_config \<Rightarrow> 's strategies \<Rightarrow> int list \<Rightarrow> metric_record \<times> 's solver
     \<Rightarrow> (py_error + unit) \<times> metric_record \<times> 's solver" where
  "train_loop C S [] st = (Inr (), st)"
| "train_loop C S (epoch_id # rest) st =
     (case train_epoch C S epoch_id st of
        (Inl e, st') \<Rightarrow> (Inl e, st')
      | (Inr u, st') \<Rightarrow> train_loop C S rest st')"

text \<open>
  \<open>train\<close> with its hyper-parameters as an argument. The source returns nothing; the
  final \<open>best_metric\<close> is returned here beside the solver so that it can be observed.
  Building the optimizer, the schedule and the constraints, and the distributed
  wrapper, belong to collaborators and do not touch the fields modelled here.
\<close>

definition train ::
  "train_config \<Rightarrow> 's strategies \<Rightarrow> 's solver \<Rightarrow> (py_error + unit) \<times> metric_record \<times> 's solver" where
  "train C S solver =
     (let s0 = solver\<lparr>has_cfg := True\<rparr>;
          best_metric = \<lparr>metric = PosInf, epoch = 0\<rparr>;
          s1 = s0\<lparr>global_step := Some 0\<rparr>
      in train_loop C S [1..epochs C] (best_metric, s1))"

subsection \<open>Reading the record of collaborator calls\<close>

definition eval_epochs :: "event list \<Rightarrow> int list" where
  "eval_epochs evs = concat (map (\<lambda>ev. case ev of Eval_pass e \<Rightarrow> [e] | _ \<Rightarrow> []) evs)"

definition saves :: "tag \<Rightarrow> event list \<Rightarrow> metric_record list" where
  "saves tg evs =
     concat (map (\<lambda>ev. case ev of Save_checkpoint m tg' \<Rightarrow> (if tg' = tg then [m] else []) | _ \<Rightarrow> []) evs)"

definition epoch_tags :: "event list \<Rightarrow> int list" where
  "epoch_tags evs =
     concat (map (\<lambda>ev. case ev of Save_checkpoint m (Epoch_N n) \<Rightarrow> [n] | _ \<Rightarrow> []) evs)"

definition scalars :: "event list \<Rightarrow> (pyfloat \<times> int) list" where
  "scalars evs = concat (map (\<lambda>ev. case ev of Log_scalar m e \<Rightarrow> [(m, e)] | _ \<Rightarrow> []) evs)"

text \<open>
  The two cadence tests of the loop body, as the source writes them:
  \<open>eval_during_train and epoch_id % eval_freq == 0 and epoch_id >= start_eval_epoch\<close>
  and \<open>save_freq > 0 and epoch_id % save_freq == 0\<close>.
\<close>

definition eval_due :: "train_config \<Rightarrow> int \<Rightarrow> bool" where
  "eval_due C e = (eval_during_train C \<and> e mod eval_freq C = 0 \<and> e \<ge> start_eval_epoch C)"

definition save_due :: "train_config \<Rightarrow> int \<Rightarrow> bool" where
  "save_due C e = (save_freq C > 0 \<and> e mod save_freq C = 0)"

section \<open>ppsci/arch/__init__.py\<close>

text \<open>
  A configuration value, and the objects a program holds by reference: every dict
  lives at an address. \<open>copy.deepcopy\<close> builds a new object, at an address not in use,
  that is equal to the old one down to its leaves.
\<close>

datatype cfg_value =
    Str string
  | Num int
  | Flag bool
  | Seq "cfg_value list"
  | Dict "(string \<times> cfg_value) list"

type_synonym cfg = "(string \<times> cfg_value) list"

record heap =
  objs :: "nat \<Rightarrow> cfg"
  next_free :: nat

definition deepcopy :: "heap \<Rightarrow> nat \<Rightarrow> heap \<times> nat" where
  "deepcopy h p =
     (let q = next_free h
      in (h\<lparr>objs := (objs h)(q := objs h p), next_free := Suc q\<rparr>, q))"

text \<open>\<open>d.pop(key)\<close>: removes the key from the object and returns its value, or raises.\<close>

definition dict_pop :: "heap \<Rightarrow> nat \<Rightarrow> string \<Rightarrow> (py_error + cfg_value) \<times> heap" where
  "dict_pop h q key =
     (case map_of (objs h q) key of
        None \<Rightarrow> (Inl KeyError, h)
      | Some v \<Rightarrow> (Inr v, h\<lparr>objs := (objs h)(q := filter (\<lambda>kv. fst kv \<noteq> key) (objs h q))\<rparr>))"

text \<open>
  \<open>eval(arch_cls)(**cfg)\<close> looks the class up by name and calls it with the remaining
  entries: the parameter \<open>arch_of\<close>, which may raise. \<open>eval\<close> of a value that is not
  a string raises \<open>TypeError\<close>.
\<close>

definition build_model ::
  "(string \<Rightarrow> cfg \<Rightarrow> py_error + 'm) \<Rightarrow> heap \<Rightarrow> nat \<Rightarrow> (py_error + 'm) \<times> heap" where
  "build_model arch_of h p =
     (let (h1, cfg) = deepcopy h p
      in (case dict_pop h1 cfg ''name'' of
            (Inl e, h2) \<Rightarrow> (Inl e, h2)
          | (Inr arch_cls, h2) \<Rightarrow>
              (case arch_cls of
                 Str name \<Rightarrow> (arch_of name (objs h2 cfg), h2)
               | _ \<Rightarrow> (Inl (Raised ''TypeError''), h2))))"

section \<open>Stand-ins for running the model on concrete inputs\<close>

text \<open>
  A framework whose samplers return the midpoint (or the mean) for every element and
  count the calls, with an odd, increasing function onto \<open>(-1, 1)\<close> in the place of
  \<open>erf\<close> and its inverse in the place of \<open>erfinv\<close>, and with exact arithmetic (no
  rounding).
\<close>

definition midpoint_framework :: "nat framework" where
  "midpoint_framework =
     \<lparr>paddle_uniform = (\<lambda>g s d lo hi. (Inr (replicate (prod_list s) ((lo + hi) / 2)), Suc g)),
      paddle_normal = (\<lambda>g mean std s. (Inr (replicate (prod_list s) mean), Suc g)),
      math_erf = (\<lambda>x. x / (1 + \<bar>x\<bar>)),
      erfinv = (\<lambda>y. y / (1 - \<bar>y\<bar>)),
      round64 = (\<lambda>x. x)\<rparr>"

definition world0 :: "nat world" where
  "world0 = \<lparr>rng = 0, warnings = []\<rparr>"

definition tensor_of_shape :: "nat list \<Rightarrow> tensor" where
  "tensor_of_shape s = \<lparr>shape = s, dtype = Float32, vals = replicate (prod_list s) 0\<rparr>"

text \<open>
  Strategies over a unit state. Training always returns; evaluation returns the
  epoch number as its metric in the first and always raises in the second.
\<close>

definition steady_strategies :: "unit strategies" where
  "steady_strategies =
     \<lparr>train_epoch_func = (\<lambda>x e. (Inr (), x)),
      eval_func = (\<lambda>x e. (Inr (Fin (of_int e)), x)),
      by_epoch = False\<rparr>"

definition failing_strategies :: "unit strategies" where
  "failing_strategies =
     \<lparr>train_epoch_func = (\<lambda>x e. (Inr (), x)),
      eval_func = (\<lambda>x e. (Inl (Raised ''eval_func''), x)),
      by_epoch = False\<rparr>"

text \<open>Five epochs, evaluation every 2 epochs from epoch 1 on, a checkpoint every 3.\<close>

definition cfg523 :: train_config where
  "cfg523 = \<lparr>epochs = 5, save_freq = 3, eval_during_train = True, eval_freq = 2,
              start_eval_epoch = 1\<rparr>"

definition solver0 :: "unit solver" where
  "solver0 = \<lparr>model_mode = Train_mode, has_cfg = False, global_step = None,
               has_validator = False, events = [], ext = ()\<rparr>"

text \<open>
  A heap holding one configuration at address 0, and a constructor lookup that knows
  the class \<open>MLP\<close> and returns the keyword arguments it was called with.
\<close>

definition heap0 :: heap where
  "heap0 = \<lparr>objs = (\<lambda>a. [])(0 := [(''name'', Str ''MLP''), (''num_layers'', Num 5)]),
             next_free = 1\<rparr>"

definition known_arch :: "string \<Rightarrow> cfg \<Rightarrow> py_error + cfg" where
  "known_arch name kwargs = (if name = ''MLP'' then Inr kwargs else Inl (Raised ''NameError''))"

section \<open>Properties of the fill routines\<close>

text \<open>
  C9. For every tensor, \<open>ones_\<close> gives exactly what \<open>constant_\<close> gives with value 1 and
  \<open>zeros_\<close> exactly what \<open>constant_\<close> gives with value 0: the three are the one
  single-value fill routine, which writes the value into every position of the buffer
  and keeps shape and dtype. None of them reads or advances a generator state, so the
  result is a function of the tensor and the value alone.
\<close>

theorem fill_routines_agree:
  "ones t = constant_fill t 1 \<and> zeros t = constant_fill t 0
   \<and> constant_fill t v = no_grad_fill t v
   \<and> constant_fill t v = t\<lparr>vals := replicate (prod_list (shape t)) v\<rparr>"
  by (simp add: ones_def zeros_def constant_fill_def no_grad_fill_def set_value_def
      full_like_def numel_def)

section \<open>Properties of the fan statistics\<close>

subsection \<open>When the 64-bit products are exact\<close>

lemma wrap64_id: "- (2 ^ 63) \<le> x \<Longrightarrow> x < 2 ^ 63 \<Longrightarrow> wrap64 x = x"
  unfolding wrap64_def by (simp add: mod_pos_pos_trivial)

lemma wrap64_nonneg: "0 \<le> x \<Longrightarrow> x < 2 ^ 63 \<Longrightarrow> wrap64 x = x"
  by (rule wrap64_id) simp_all

lemma prod_list_pos: "\<forall>d\<in>set ds. 0 < d \<Longrightarrow> 0 < (prod_list ds :: nat)"
  by (induction ds) simp_all

lemma np_prod_foldl_exact:
  "\<forall>d\<in>set ds. 0 < d \<Longrightarrow> 0 < acc \<Longrightarrow> acc * int (prod_list ds) < 2 ^ 63 \<Longrightarrow>
   foldl (\<lambda>acc d. wrap64 (acc * int d)) acc ds = acc * int (prod_list ds)"
proof (induction ds arbitrary: acc)
  case Nil
  then show ?case by simp
next
  case (Cons d ds)
  have dpos: "0 < int d" using Cons.prems(1) by simp
  have rest: "1 \<le> int (prod_list ds)"
    using prod_list_pos [of ds] Cons.prems(1) by simp
  have pos: "0 < acc * int d" using Cons.prems(2) dpos by simp
  have "acc * int d * 1 \<le> acc * int d * int (prod_list ds)"
    using rest pos by (intro mult_left_mono) simp_all
  then have step: "acc * int d \<le> acc * int d * int (prod_list ds)" by simp
  have bound: "acc * int d < 2 ^ 63"
    using step Cons.prems(3) by (simp add: mult.assoc)
  have w: "wrap64 (acc * int d) = acc * int d"
    using wrap64_id [of "acc * int d"] pos bound by simp
  show ?case
    using Cons.IH [of "acc * int d"] Cons.prems pos w by (simp add: mult.assoc)
qed

lemma np_prod_exact:
  "\<forall>d\<in>set ds. 0 < d \<Longrightarrow> int (prod_list ds) < 2 ^ 63 \<Longrightarrow> np_prod ds = int (prod_list ds)"
  unfolding np_prod_def using np_prod_foldl_exact [of ds 1] by simp

lemma rank2_shape: "2 \<le> ndim t \<Longrightarrow> \<exists>s0 s1 rest. shape t = s0 # s1 # rest"
  unfolding ndim_def by (cases "shape t"; cases "tl (shape t)") auto

lemma fan_swap:
  assumes "2 \<le> ndim t"
  shows "\<exists>fi fo. calculate_fan_in_and_fan_out t False = Inr (fi, fo)
           \<and> calculate_fan_in_and_fan_out t True = Inr (fo, fi)"
  using assms by (simp add: calculate_fan_in_and_fan_out_def Let_def)

lemma fan_exact:
  assumes sh: "shape t = s0 # s1 # rest"
    and pos: "\<forall>d\<in>set (shape t). 0 < d"
    and small: "numel t < 2 ^ 63"
  shows "calculate_fan_in_and_fan_out t reverse =
           Inr (if reverse then (int (s0 * prod_list rest), int (s1 * prod_list rest))
                else (int (s1 * prod_list rest), int (s0 * prod_list rest)))"
proof -
  let ?r = "prod_list rest"
  have n: "numel t = s0 * s1 * ?r" using sh by (simp add: numel_def)
  have p0: "0 < s0" and p1: "0 < s1" and prest: "\<forall>d\<in>set rest. 0 < d"
    using pos sh by simp_all
  have rpos: "0 < ?r" using prod_list_pos [OF prest] .
  have r_le: "?r \<le> numel t" using n p0 p1 by simp
  have a_le: "s0 * ?r \<le> numel t" using n p1 by simp
  have b_le: "s1 * ?r \<le> numel t" using n p0 by simp
  have ismall: "int (numel t) < 2 ^ 63" using small by simp
  have rb: "int ?r < 2 ^ 63" using r_le ismall by linarith
  have ab: "int (s0 * ?r) < 2 ^ 63" using a_le ismall by linarith
  have bb: "int (s1 * ?r) < 2 ^ 63" using b_le ismall by linarith
  have np: "np_prod rest = int ?r" using np_prod_exact [OF prest rb] .
  have wa: "wrap64 (int s0 * int ?r) = int s0 * int ?r"
    using ab by (intro wrap64_nonneg) simp_all
  have wb: "wrap64 (int s1 * int ?r) = int s1 * int ?r"
    using bb by (intro wrap64_nonneg) simp_all
  show ?thesis
  proof (cases "rest = []")
    case True
    then show ?thesis
      using sh by (simp add: calculate_fan_in_and_fan_out_def ndim_def fan_mul_def)
  next
    case False
    then have "2 < ndim t" using sh by (cases rest) (simp_all add: ndim_def)
    then show ?thesis
      using sh np wa wb
      by (simp add: calculate_fan_in_and_fan_out_def fan_mul_def Let_def)
  qed
qed

subsection \<open>The product of the two fans, and the reversed layout\<close>

text \<open>
  C2, as the source has it. For every tensor of rank at least 2 the call with
  \<open>reverse=True\<close> returns exactly the swapped pair of the call with \<open>reverse=False\<close>.
  When every dimension is positive and the element count is below \<open>2^63\<close>, the
  product \<open>fan_in * fan_out\<close> is the square of (element count divided by the product
  of the two leading dimensions) times the product of the two leading dimensions: the
  receptive field size multiplies both fans, so it enters the product twice.
\<close>

theorem fan_product_and_swap:
  assumes "2 \<le> ndim t"
  shows "\<exists>fi fo. calculate_fan_in_and_fan_out t False = Inr (fi, fo)
           \<and> calculate_fan_in_and_fan_out t True = Inr (fo, fi)
           \<and> ((\<forall>d\<in>set (shape t). 0 < d) \<and> numel t < 2 ^ 63 \<longrightarrow>
                fi * fo = int ((numel t div (shape t ! 0 * shape t ! 1)) ^ 2
                               * (shape t ! 0 * shape t ! 1)))"
proof -
  obtain s0 s1 rest where sh: "shape t = s0 # s1 # rest"
    using rank2_shape [OF assms] by blast
  obtain fi fo where f: "calculate_fan_in_and_fan_out t False = Inr (fi, fo)"
    and r: "calculate_fan_in_and_fan_out t True = Inr (fo, fi)"
    using fan_swap [OF assms] by blast
  have "fi * fo = int ((numel t div (shape t ! 0 * shape t ! 1)) ^ 2 * (shape t ! 0 * shape t ! 1))"
    if pos: "\<forall>d\<in>set (shape t). 0 < d" and small: "numel t < 2 ^ 63"
  proof -
    have e: "fi = int (s1 * prod_list rest)" "fo = int (s0 * prod_list rest)"
      using fan_exact [OF sh pos small, of False] f by simp_all
    have p: "0 < s0 * s1" using pos sh by simp
    have "numel t = prod_list rest * (s0 * s1)" using sh by (simp add: numel_def)
    then have d: "numel t div (s0 * s1) = prod_list rest" using p by simp
    show ?thesis using e d sh by (simp add: power2_eq_square)
  qed
  then show ?thesis using f r by blast
qed

theorem fan_product_and_swap_witness:
  "2 \<le> ndim (tensor_of_shape [2, 3, 4])
   \<and> numel (tensor_of_shape [2, 3, 4]) < 2 ^ 63
   \<and> calculate_fan_in_and_fan_out (tensor_of_shape [2, 3, 4]) False = Inr (12, 8)
   \<and> calculate_fan_in_and_fan_out (tensor_of_shape [2, 3, 4]) True = Inr (8, 12)
   \<and> (12 :: int) * 8 = int ((numel (tensor_of_shape [2, 3, 4]) div (2 * 3)) ^ 2 * (2 * 3))"
  using fan_product_and_swap [of "tensor_of_shape [2, 3, 4]"]
  by (simp add: tensor_of_shape_def ndim_def numel_def calculate_fan_in_and_fan_out_def
      fan_mul_def np_prod_def wrap64_def)

text \<open>
  The product as C2 states it, without the square, fails on the shape \<open>[2, 3, 4]\<close>:
  the fans are 12 and 8, their product is 96, and (24 div 6) * 6 is 24.
\<close>

theorem fan_product_counterexample:
  "calculate_fan_in_and_fan_out (tensor_of_shape [2, 3, 4]) False = Inr (12, 8)
   \<and> (12 :: int) * 8 \<noteq> int (numel (tensor_of_shape [2, 3, 4]) div (2 * 3) * (2 * 3))"
  by (simp add: tensor_of_shape_def calculate_fan_in_and_fan_out_def ndim_def numel_def
      fan_mul_def np_prod_def wrap64_def)

subsection \<open>The rank check\<close>

text \<open>
  C8. Applied to a tensor of rank 0 or 1, \<open>_calculate_fan_in_and_fan_out\<close> raises
  \<open>ValueError\<close> (the spec's \<open>ShapeError\<close>); for every tensor of rank at least 2 it
  returns a pair without error. It is a computation on the shape alone: it returns no
  tensor, and two tensors of the same shape, whatever their values and dtype, give
  the same result.
\<close>

theorem fan_rank_check:
  "(ndim t < 2 \<longrightarrow> calculate_fan_in_and_fan_out t reverse = Inl ValueError)
   \<and> (2 \<le> ndim t \<longrightarrow> (\<exists>fi fo. calculate_fan_in_and_fan_out t reverse = Inr (fi, fo)))
   \<and> (\<forall>t'. shape t' = shape t \<longrightarrow>
          calculate_fan_in_and_fan_out t' reverse = calculate_fan_in_and_fan_out t reverse)"
  by (simp add: calculate_fan_in_and_fan_out_def ndim_def fan_mul_def Let_def)

theorem fan_rank_check_witness:
  "ndim (tensor_of_shape []) < 2
   \<and> calculate_fan_in_and_fan_out (tensor_of_shape []) False = Inl ValueError
   \<and> ndim (tensor_of_shape [5]) < 2
   \<and> calculate_fan_in_and_fan_out (tensor_of_shape [5]) True = Inl ValueError
   \<and> 2 \<le> ndim (tensor_of_shape [2, 3])
   \<and> calculate_fan_in_and_fan_out (tensor_of_shape [2, 3]) False = Inr (3, 2)
   \<and> calculate_fan_in_and_fan_out ((tensor_of_shape [2, 3])\<lparr>vals := [1, 2, 3, 4, 5, 6]\<rparr>) False
       = calculate_fan_in_and_fan_out (tensor_of_shape [2, 3]) False"
  using fan_rank_check [of "tensor_of_shape []" False]
    fan_rank_check [of "tensor_of_shape [5]" True]
    fan_rank_check [of "tensor_of_shape [2, 3]" False]
  by (simp add: tensor_of_shape_def ndim_def calculate_fan_in_and_fan_out_def fan_mul_def)

section \<open>Properties of the sampling initializers\<close>

subsection \<open>uniform\<close>

text \<open>
  C4, as the source has it. \<open>uniform_\<close> makes no check of its own, on the element
  count or on anything else: it hands the tensor's shape and dtype and the two bounds
  to the framework's sampler, fails exactly when the sampler fails, with the
  sampler's error, and otherwise returns the tensor with the sampler's output as its
  values and shape and dtype unchanged. Nothing is sent to the logger.
\<close>

theorem uniform_defers_to_sampler:
  "(case paddle_uniform P (rng w) (shape t) (dtype t) a b of
      (Inl e, g) \<Rightarrow> uniform P w t a b = (Inl e, w\<lparr>rng := g\<rparr>)
    | (Inr vs, g) \<Rightarrow> uniform P w t a b = (Inr (t\<lparr>vals := vs\<rparr>), w\<lparr>rng := g\<rparr>))
   \<and> (\<forall>e. fst (uniform P w t a b) = Inl e \<longrightarrow>
          fst (paddle_uniform P (rng w) (shape t) (dtype t) a b) = Inl e)"
  by (auto simp: uniform_def no_grad_uniform_def set_value_def split: prod.splits sum.splits)

theorem uniform_defers_to_sampler_witness:
  "uniform midpoint_framework world0 (tensor_of_shape [2]) (- 1) 1
     = (Inr \<lparr>shape = [2], dtype = Float32, vals = [0, 0]\<rparr>, \<lparr>rng = 1, warnings = []\<rparr>)"
  using uniform_defers_to_sampler [of midpoint_framework world0 "tensor_of_shape [2]" "- 1" 1]
  by (simp add: midpoint_framework_def world0_def tensor_of_shape_def numeral_2_eq_2)

text \<open>
  With a sampler that returns on an empty shape, \<open>uniform_\<close> on a tensor with zero
  elements returns the tensor and raises nothing.
\<close>

theorem uniform_zero_elements_counterexample:
  "numel (tensor_of_shape [0]) = 0
   \<and> fst (uniform midpoint_framework world0 (tensor_of_shape [0]) (- 1) 1) = Inr (tensor_of_shape [0])"
  by (simp add: uniform_def no_grad_uniform_def set_value_def midpoint_framework_def
      world0_def tensor_of_shape_def numel_def)

subsection \<open>The stand-in framework\<close>

lemma midpoint_uniform:
  "paddle_uniform midpoint_framework g s d lo hi
     = (Inr (replicate (prod_list s) ((lo + hi) / 2)), Suc g)"
  by (simp add: midpoint_framework_def)

lemma midpoint_normal:
  "paddle_normal midpoint_framework g mean std s = (Inr (replicate (prod_list s) mean), Suc g)"
  by (simp add: midpoint_framework_def)

lemma midpoint_exact: "round64 midpoint_framework = (\<lambda>x. x)"
  by (simp add: midpoint_framework_def)

subsection \<open>Xavier\<close>

lemma fan_sum_exact:
  assumes rk: "2 \<le> ndim t"
    and pos: "\<forall>d\<in>set (shape t). 0 < d"
    and small: "numel t < 2 ^ 62"
  shows "\<exists>fi fo. calculate_fan_in_and_fan_out t reverse = Inr (fi, fo)
           \<and> 0 < fi + fo \<and> fan_add t fi fo = fi + fo"
proof -
  obtain s0 s1 rest where sh: "shape t = s0 # s1 # rest"
    using rank2_shape [OF rk] by blast
  let ?r = "prod_list rest"
  have small63: "numel t < 2 ^ 63"
  proof -
    have "(2::nat) ^ 62 \<le> 2 ^ 63" by simp
    then show ?thesis using small by linarith
  qed
  let ?fi = "if reverse then int (s0 * ?r) else int (s1 * ?r)"
  let ?fo = "if reverse then int (s1 * ?r) else int (s0 * ?r)"
  have c: "calculate_fan_in_and_fan_out t reverse = Inr (?fi, ?fo)"
    using fan_exact [OF sh pos small63, of reverse] by simp
  have n: "numel t = s0 * s1 * ?r" using sh by (simp add: numel_def)
  have p0: "0 < s0" and p1: "0 < s1" and prest: "\<forall>d\<in>set rest. 0 < d"
    using pos sh by simp_all
  have rpos: "0 < ?r" using prod_list_pos [OF prest] .
  have a_le: "s0 * ?r \<le> numel t" using n p1 by simp
  have b_le: "s1 * ?r \<le> numel t" using n p0 by simp
  have sum_nat: "s0 * ?r + s1 * ?r < 2 ^ 63"
  proof -
    have "s0 * ?r + s1 * ?r \<le> 2 * numel t" using a_le b_le by linarith
    also have "\<dots> < 2 * 2 ^ 62" using small by simp
    also have "\<dots> = (2::nat) ^ 63" by simp
    finally show ?thesis .
  qed
  have sum_eq: "?fi + ?fo = int (s0 * ?r + s1 * ?r)" by simp
  have "0 < s0 * ?r + s1 * ?r" using p0 rpos by simp
  then have sum_pos: "0 < ?fi + ?fo" unfolding sum_eq by linarith
  have isum: "int (s0 * ?r + s1 * ?r) < 2 ^ 63"
    using sum_nat by (simp only: of_nat_less_numeral_power_cancel_iff)
  have sum_small: "?fi + ?fo < 2 ^ 63"
    by (simp only: sum_eq isum)
  have "wrap64 (?fi + ?fo) = ?fi + ?fo"
    using sum_pos sum_small by (intro wrap64_nonneg) simp_all
  then have fa: "fan_add t ?fi ?fo = ?fi + ?fo" by (simp add: fan_add_def)
  show ?thesis using c sum_pos fa by blast
qed

text \<open>
  C7, as the source has it. For every tensor of rank at least 2, with \<open>fan_in\<close> and
  \<open>fan_out\<close> the fans of the tensor and \<open>s\<close> their sum as the code computes it: when
  \<open>s\<close> is positive, \<open>xavier_uniform_\<close> computes \<open>std = gain * sqrt (2 / s)\<close> and
  \<open>k = sqrt 3 * std\<close> in float arithmetic, calls the uniform sampler with the bounds
  \<open>-k\<close> and \<open>k\<close> on the shape and dtype of the tensor and writes what the sampler
  returns into the tensor, and \<open>xavier_normal_\<close> does the same with the normal sampler,
  mean 0 and the same \<open>std\<close>; both fail only when the sampler fails. When \<open>s\<close> is zero,
  both raise \<open>ZeroDivisionError\<close> and write nothing. In exact arithmetic the two
  numbers are \<open>gain * sqrt (2 / s)\<close> and \<open>sqrt 3 * std\<close>. When every dimension is
  positive and the tensor has fewer than \<open>2^62\<close> elements, \<open>s\<close> is positive and is the
  exact sum \<open>fan_in + fan_out\<close>.
\<close>

theorem xavier_formulas:
  assumes "2 \<le> ndim t"
  shows "\<exists>fi fo. calculate_fan_in_and_fan_out t reverse = Inr (fi, fo)
          \<and> (let s = fan_add t fi fo;
                  std = fmul P gain (fsqrt P (fdiv P 2 (float_of_int P s)));
                  k = fmul P (fsqrt P 3) std
              in (0 < s \<longrightarrow>
                    xavier_uniform P w t gain reverse =
                      (case paddle_uniform P (rng w) (shape t) (dtype t) (- k) k of
                         (Inl e, g) \<Rightarrow> (Inl e, w\<lparr>rng := g\<rparr>)
                       | (Inr vs, g) \<Rightarrow> (Inr (t\<lparr>vals := vs\<rparr>), w\<lparr>rng := g\<rparr>))
                    \<and> xavier_normal P w t gain reverse =
                      (case paddle_normal P (rng w) 0 std (shape t) of
                         (Inl e, g) \<Rightarrow> (Inl e, w\<lparr>rng := g\<rparr>)
                       | (Inr vs, g) \<Rightarrow> (Inr (t\<lparr>vals := vs\<rparr>), w\<lparr>rng := g\<rparr>)))
               \<and> (s = 0 \<longrightarrow>
                    xavier_uniform P w t gain reverse = (Inl ZeroDivisionError, w)
                    \<and> xavier_normal P w t gain reverse = (Inl ZeroDivisionError, w))
               \<and> (round64 P = (\<lambda>x. x) \<longrightarrow>
                    std = gain * sqrt (2 / real_of_int s) \<and> k = sqrt 3 * std))
          \<and> ((\<forall>d\<in>set (shape t). 0 < d) \<and> numel t < 2 ^ 62 \<longrightarrow>
                0 < fi + fo \<and> fan_add t fi fo = fi + fo)"
proof -
  have "\<exists>fi fo. calculate_fan_in_and_fan_out t reverse = Inr (fi, fo)"
    using fan_swap [OF assms] by (cases reverse) auto
  then obtain fi fo where c: "calculate_fan_in_and_fan_out t reverse = Inr (fi, fo)"
    by blast
  let ?s = "fan_add t fi fo"
  let ?std = "fmul P gain (fsqrt P (fdiv P 2 (float_of_int P ?s)))"
  let ?k = "fmul P (fsqrt P 3) ?std"
  have pos: "xavier_uniform P w t gain reverse =
               (case paddle_uniform P (rng w) (shape t) (dtype t) (- ?k) ?k of
                  (Inl e, g) \<Rightarrow> (Inl e, w\<lparr>rng := g\<rparr>)
                | (Inr vs, g) \<Rightarrow> (Inr (t\<lparr>vals := vs\<rparr>), w\<lparr>rng := g\<rparr>))
             \<and> xavier_normal P w t gain reverse =
               (case paddle_normal P (rng w) 0 ?std (shape t) of
                  (Inl e, g) \<Rightarrow> (Inl e, w\<lparr>rng := g\<rparr>)
                | (Inr vs, g) \<Rightarrow> (Inr (t\<lparr>vals := vs\<rparr>), w\<lparr>rng := g\<rparr>))"
    if "0 < ?s"
  proof -
    have s: "xavier_std P t gain reverse = Inr ?std"
      using c that by (simp add: xavier_std_def Let_def)
    show ?thesis
      using s unfolding xavier_uniform_def xavier_normal_def Let_def
          no_grad_uniform_def no_grad_normal_def set_value_def
      by simp
  qed
  have zero: "xavier_uniform P w t gain reverse = (Inl ZeroDivisionError, w)
              \<and> xavier_normal P w t gain reverse = (Inl ZeroDivisionError, w)"
    if "?s = 0"
  proof -
    have s: "xavier_std P t gain reverse = Inl ZeroDivisionError"
      using c that by (simp add: xavier_std_def Let_def)
    show ?thesis using s by (simp add: xavier_uniform_def xavier_normal_def)
  qed
  have exact: "?std = gain * sqrt (2 / real_of_int ?s) \<and> ?k = sqrt 3 * ?std"
    if "round64 P = (\<lambda>x. x)"
    using that by (simp add: fmul_def fsqrt_def fdiv_def float_of_int_def)
  have sum: "0 < fi + fo \<and> fan_add t fi fo = fi + fo"
    if "(\<forall>d\<in>set (shape t). 0 < d) \<and> numel t < 2 ^ 62"
  proof -
    have pd: "\<forall>d\<in>set (shape t). 0 < d" and sm: "numel t < 2 ^ 62"
      using that by blast+
    obtain fi' fo' where c': "calculate_fan_in_and_fan_out t reverse = Inr (fi', fo')"
      and p: "0 < fi' + fo'" and a: "fan_add t fi' fo' = fi' + fo'"
      using fan_sum_exact [OF assms pd sm, of reverse] by blast
    then show ?thesis using c by simp
  qed
  show ?thesis
    unfolding Let_def using c pos zero exact sum by blast
qed

theorem xavier_formulas_witness:
  "2 \<le> ndim ((tensor_of_shape [2, 3])\<lparr>vals := [1, 2, 3, 4, 5, 6]\<rparr>)
   \<and> calculate_fan_in_and_fan_out ((tensor_of_shape [2, 3])\<lparr>vals := [1, 2, 3, 4, 5, 6]\<rparr>) False
       = Inr (3, 2)
   \<and> xavier_uniform midpoint_framework world0
        ((tensor_of_shape [2, 3])\<lparr>vals := [1, 2, 3, 4, 5, 6]\<rparr>) 1 False
       = (Inr \<lparr>shape = [2, 3], dtype = Float32, vals = replicate 6 0\<rparr>,
          \<lparr>rng = 1, warnings = []\<rparr>)
   \<and> xavier_normal midpoint_framework world0
        ((tensor_of_shape [2, 3])\<lparr>vals := [1, 2, 3, 4, 5, 6]\<rparr>) 1 False
       = (Inr \<lparr>shape = [2, 3], dtype = Float32, vals = replicate 6 0\<rparr>,
          \<lparr>rng = 1, warnings = []\<rparr>)
   \<and> 2 \<le> ndim (tensor_of_shape [2, 3, 0])
   \<and> calculate_fan_in_and_fan_out (tensor_of_shape [2, 3, 0]) False = Inr (0, 0)
   \<and> xavier_uniform midpoint_framework world0 (tensor_of_shape [2, 3, 0]) 1 False
       = (Inl ZeroDivisionError, world0)
   \<and> xavier_normal midpoint_framework world0 (tensor_of_shape [2, 3, 0]) 1 False
       = (Inl ZeroDivisionError, world0)"
proof -
  let ?t = "(tensor_of_shape [2, 3])\<lparr>vals := [1, 2, 3, 4, 5, 6]\<rparr>"
  let ?M = "midpoint_framework"
  have rk: "2 \<le> ndim ?t" by (simp add: ndim_def tensor_of_shape_def)
  have c: "calculate_fan_in_and_fan_out ?t False = Inr (3, 2)"
    by (simp add: tensor_of_shape_def ndim_def calculate_fan_in_and_fan_out_def fan_mul_def)
  have a: "fan_add ?t 3 2 = 5" by (simp add: fan_add_def ndim_def tensor_of_shape_def)
  have sh: "shape ?t = [2, 3]" and dt: "dtype ?t = Float32"
    by (simp_all add: tensor_of_shape_def)
  obtain fi fo where c': "calculate_fan_in_and_fan_out ?t False = Inr (fi, fo)"
    and body: "0 < fan_add ?t fi fo \<longrightarrow>
        xavier_uniform ?M world0 ?t 1 False =
          (case paddle_uniform ?M (rng world0) (shape ?t) (dtype ?t)
                  (- fmul ?M (fsqrt ?M 3)
                       (fmul ?M 1 (fsqrt ?M (fdiv ?M 2 (float_of_int ?M (fan_add ?t fi fo))))))
                  (fmul ?M (fsqrt ?M 3)
                       (fmul ?M 1 (fsqrt ?M (fdiv ?M 2 (float_of_int ?M (fan_add ?t fi fo)))))) of
             (Inl e, g) \<Rightarrow> (Inl e, world0\<lparr>rng := g\<rparr>)
           | (Inr vs, g) \<Rightarrow> (Inr (?t\<lparr>vals := vs\<rparr>), world0\<lparr>rng := g\<rparr>))
        \<and> xavier_normal ?M world0 ?t 1 False =
          (case paddle_normal ?M (rng world0) 0
                  (fmul ?M 1 (fsqrt ?M (fdiv ?M 2 (float_of_int ?M (fan_add ?t fi fo)))))
                  (shape ?t) of
             (Inl e, g) \<Rightarrow> (Inl e, world0\<lparr>rng := g\<rparr>)
           | (Inr vs, g) \<Rightarrow> (Inr (?t\<lparr>vals := vs\<rparr>), world0\<lparr>rng := g\<rparr>))"
    using xavier_formulas [OF rk, where reverse = False and P = ?M and w = world0 and gain = 1]
    unfolding Let_def by blast
  have "fi = 3" and "fo = 2" using c c' by simp_all
  then have pos: "0 < fan_add ?t fi fo" using a by simp
  have u: "xavier_uniform ?M world0 ?t 1 False
             = (Inr \<lparr>shape = [2, 3], dtype = Float32, vals = replicate 6 0\<rparr>,
                \<lparr>rng = 1, warnings = []\<rparr>)"
    using body pos
    by (simp add: midpoint_uniform sh dt world0_def tensor_of_shape_def)
  have n: "xavier_normal ?M world0 ?t 1 False
             = (Inr \<lparr>shape = [2, 3], dtype = Float32, vals = replicate 6 0\<rparr>,
                \<lparr>rng = 1, warnings = []\<rparr>)"
    using body pos
    by (simp add: midpoint_normal sh dt world0_def tensor_of_shape_def)
  let ?z = "tensor_of_shape [2, 3, 0]"
  have rkz: "2 \<le> ndim ?z" by (simp add: ndim_def tensor_of_shape_def)
  have cz: "calculate_fan_in_and_fan_out ?z False = Inr (0, 0)"
    by (simp add: tensor_of_shape_def ndim_def calculate_fan_in_and_fan_out_def fan_mul_def
        np_prod_def wrap64_def)
  have az: "fan_add ?z 0 0 = 0" by (simp add: fan_add_def wrap64_def)
  obtain gi go where cz': "calculate_fan_in_and_fan_out ?z False = Inr (gi, go)"
    and bodyz: "fan_add ?z gi go = 0 \<longrightarrow>
        xavier_uniform ?M world0 ?z 1 False = (Inl ZeroDivisionError, world0)
        \<and> xavier_normal ?M world0 ?z 1 False = (Inl ZeroDivisionError, world0)"
    using xavier_formulas [OF rkz, where reverse = False and P = ?M and w = world0 and gain = 1]
    unfolding Let_def by blast
  have "gi = 0" and "go = 0" using cz cz' by simp_all
  then have z: "xavier_uniform ?M world0 ?z 1 False = (Inl ZeroDivisionError, world0)
        \<and> xavier_normal ?M world0 ?z 1 False = (Inl ZeroDivisionError, world0)"
    using bodyz az by simp
  show ?thesis using rk c u n rkz cz z by simp
qed

text \<open>
  On the shape \<open>[0, 0]\<close>, of rank 2, both fans are zero and both initializers raise
  \<open>ZeroDivisionError\<close>.
\<close>

theorem xavier_zero_fans_counterexample:
  "2 \<le> ndim (tensor_of_shape [0, 0])
   \<and> calculate_fan_in_and_fan_out (tensor_of_shape [0, 0]) False = Inr (0, 0)
   \<and> fst (xavier_uniform midpoint_framework world0 (tensor_of_shape [0, 0]) 1 False)
       = Inl ZeroDivisionError
   \<and> fst (xavier_normal midpoint_framework world0 (tensor_of_shape [0, 0]) 1 False)
       = Inl ZeroDivisionError"
  by (simp add: tensor_of_shape_def ndim_def calculate_fan_in_and_fan_out_def fan_mul_def
      fan_add_def xavier_std_def xavier_uniform_def xavier_normal_def)

subsection \<open>Truncated normal\<close>

lemma clip_bounds: "a \<le> b \<Longrightarrow> a \<le> clip a b x \<and> clip a b x \<le> b"
  by (simp add: clip_def min_def max_def)

text \<open>
  C6, as the source has it. For every \<open>mean\<close>, \<open>std\<close>, \<open>a\<close> and \<open>b\<close>: the warning is
  sent exactly when the test of the source holds as it is computed, \<open>mean\<close> below the
  float \<open>a - 2 * std\<close> or above the float \<open>b + 2 * std\<close>; in exact arithmetic this is
  \<open>mean < a - 2 * std\<close> or \<open>mean > b + 2 * std\<close>. With \<open>std = 0\<close>, \<open>trunc_normal_\<close>
  raises \<open>ZeroDivisionError\<close>, whatever the other arguments. With any other \<open>std\<close> it
  raises nothing of its own: it fails only when the framework's sampler fails, with
  the sampler's error, and otherwise writes into the tensor the sampler's values,
  each taken through \<open>erfinv\<close>, scaled by \<open>std * sqrt 2\<close>, shifted by \<open>mean\<close> and
  clipped to \<open>[a, b]\<close>. When \<open>a \<le> b\<close> and it returns, the shape is unchanged and
  every value written lies in \<open>[a, b]\<close>, warned or not.
\<close>

theorem trunc_normal_warns_and_clamps:
  "warnings (snd (trunc_normal P w t mean std a b)) =
     warnings w @ (if mean < fsub P a (fmul P 2 std) \<or> mean > fadd P b (fmul P 2 std)
                   then [(mean, std, a, b)] else [])
   \<and> (round64 P = (\<lambda>x. x) \<longrightarrow>
        (mean < fsub P a (fmul P 2 std) \<or> mean > fadd P b (fmul P 2 std))
          = (mean < a - 2 * std \<or> mean > b + 2 * std))
   \<and> (std = 0 \<longrightarrow> fst (trunc_normal P w t mean std a b) = Inl ZeroDivisionError)
   \<and> (std \<noteq> 0 \<longrightarrow>
        (case paddle_uniform P (rng w) (shape t) (dtype t)
                (fsub P (fmul P 2 (norm_cdf P (fdiv P (fsub P a mean) std))) 1)
                (fsub P (fmul P 2 (norm_cdf P (fdiv P (fsub P b mean) std))) 1) of
           (Inl e, g) \<Rightarrow> fst (trunc_normal P w t mean std a b) = Inl e
         | (Inr xs, g) \<Rightarrow>
             fst (trunc_normal P w t mean std a b) =
               Inr (t\<lparr>vals := map (\<lambda>x. clip a b (erfinv P x * fmul P std (fsqrt P 2) + mean)) xs\<rparr>)))
   \<and> (a \<le> b \<longrightarrow>
        (\<forall>t'. fst (trunc_normal P w t mean std a b) = Inr t' \<longrightarrow>
           shape t' = shape t \<and> (\<forall>v\<in>set (vals t'). a \<le> v \<and> v \<le> b)))"
proof -
  have warn: "warnings (snd (trunc_normal P w t mean std a b)) =
     warnings w @ (if mean < fsub P a (fmul P 2 std) \<or> mean > fadd P b (fmul P 2 std)
                   then [(mean, std, a, b)] else [])"
    by (auto simp: trunc_normal_def no_grad_trunc_normal_def Let_def
        split: prod.splits sum.splits)
  have exact: "(mean < fsub P a (fmul P 2 std) \<or> mean > fadd P b (fmul P 2 std))
          = (mean < a - 2 * std \<or> mean > b + 2 * std)"
    if "round64 P = (\<lambda>x. x)"
    using that by (simp add: fsub_def fadd_def fmul_def)
  have zero: "fst (trunc_normal P w t mean std a b) = Inl ZeroDivisionError" if "std = 0"
    using that by (simp add: trunc_normal_def no_grad_trunc_normal_def Let_def)
  have run: "case paddle_uniform P (rng w) (shape t) (dtype t)
                (fsub P (fmul P 2 (norm_cdf P (fdiv P (fsub P a mean) std))) 1)
                (fsub P (fmul P 2 (norm_cdf P (fdiv P (fsub P b mean) std))) 1) of
           (Inl e, g) \<Rightarrow> fst (trunc_normal P w t mean std a b) = Inl e
         | (Inr xs, g) \<Rightarrow>
             fst (trunc_normal P w t mean std a b) =
               Inr (t\<lparr>vals := map (\<lambda>x. clip a b (erfinv P x * fmul P std (fsqrt P 2) + mean)) xs\<rparr>)"
    if "std \<noteq> 0"
    using that
    by (auto simp: trunc_normal_def no_grad_trunc_normal_def set_value_def Let_def comp_def
        split: prod.splits sum.splits)
  have bounds: "shape t' = shape t \<and> (\<forall>v\<in>set (vals t'). a \<le> v \<and> v \<le> b)"
    if "a \<le> b" and "fst (trunc_normal P w t mean std a b) = Inr t'" for t'
    using that clip_bounds [OF that(1)]
    by (auto simp: trunc_normal_def no_grad_trunc_normal_def set_value_def Let_def
        split: prod.splits sum.splits if_splits)
  show ?thesis using warn exact zero run bounds by blast
qed

theorem trunc_normal_warns_and_clamps_witness:
  "warnings (snd (trunc_normal midpoint_framework world0 (tensor_of_shape [2]) 10 1 (- 2) 2))
       = [(10, 1, - 2, 2)]
   \<and> (\<exists>t'. fst (trunc_normal midpoint_framework world0 (tensor_of_shape [2]) 10 1 (- 2) 2) = Inr t'
         \<and> shape t' = [2] \<and> length (vals t') = 2
         \<and> list_all (\<lambda>v. - 2 \<le> v \<and> v \<le> 2) (vals t'))
   \<and> warnings (snd (trunc_normal midpoint_framework world0 (tensor_of_shape [2]) 0 1 (- 2) 2)) = []
   \<and> trunc_normal midpoint_framework world0 (tensor_of_shape [2]) 10 0 (- 2) 2
       = (Inl ZeroDivisionError, \<lparr>rng = 0, warnings = [(10, 0, - 2, 2)]\<rparr>)"
proof -
  let ?M = "midpoint_framework"
  let ?t = "tensor_of_shape [2]"
  have a: "warnings (snd (trunc_normal ?M world0 ?t 10 1 (- 2) 2)) = [(10, 1, - 2, 2)]"
    using trunc_normal_warns_and_clamps [of ?M world0 ?t 10 1 "- 2" 2]
    by (simp add: midpoint_exact fsub_def fadd_def fmul_def world0_def)
  have b: "\<exists>t'. fst (trunc_normal ?M world0 ?t 10 1 (- 2) 2) = Inr t'
         \<and> shape t' = [2] \<and> length (vals t') = 2
         \<and> list_all (\<lambda>v. - 2 \<le> v \<and> v \<le> 2) (vals t')"
    using trunc_normal_warns_and_clamps [of ?M world0 ?t 10 1 "- 2" 2]
    by (simp add: midpoint_uniform tensor_of_shape_def list_all_iff)
  have c: "warnings (snd (trunc_normal ?M world0 ?t 0 1 (- 2) 2)) = []"
    using trunc_normal_warns_and_clamps [of ?M world0 ?t 0 1 "- 2" 2]
    by (simp add: midpoint_exact fsub_def fadd_def fmul_def world0_def)
  have d: "trunc_normal ?M world0 ?t 10 0 (- 2) 2
       = (Inl ZeroDivisionError, \<lparr>rng = 0, warnings = [(10, 0, - 2, 2)]\<rparr>)"
    using trunc_normal_warns_and_clamps [of ?M world0 ?t 10 0 "- 2" 2]
    by (simp add: trunc_normal_def no_grad_trunc_normal_def midpoint_exact fsub_def fadd_def
        fmul_def world0_def)
  show ?thesis using a b c d by blast
qed

text \<open>With \<open>std = 0\<close> the division \<open>(a - mean) / std\<close> raises \<open>ZeroDivisionError\<close>.\<close>

theorem trunc_normal_zero_std_counterexample:
  "(- 2::real) \<le> 2
   \<and> fst (trunc_normal midpoint_framework world0 (tensor_of_shape [2]) 0 0 (- 2) 2)
       = Inl ZeroDivisionError"
  by (simp add: trunc_normal_def no_grad_trunc_normal_def)

section \<open>Properties of the training and evaluation driver\<close>

subsection \<open>The evaluation function and the mode of the model\<close>

lemma events_emit: "events (emit s ev) = events s @ [ev]"
  by (simp add: emit_def)

lemma eval_result:
  "eval S solver e =
     (case eval_func S (ext solver) e of
        (Inl err, x) \<Rightarrow>
          (Inl err, solver\<lparr>model_mode := Eval_mode, has_cfg := True,
             global_step := Some (case global_step solver of None \<Rightarrow> 0 | Some n \<Rightarrow> n),
             has_validator := True, events := events solver @ [Eval_pass e], ext := x\<rparr>)
      | (Inr m, x) \<Rightarrow>
          (Inr m, solver\<lparr>model_mode := Train_mode, has_cfg := True,
             global_step := Some (case global_step solver of None \<Rightarrow> 0 | Some n \<Rightarrow> n),
             has_validator := True, events := events solver @ [Eval_pass e], ext := x\<rparr>))"
  by (cases solver) (auto simp: eval_def emit_def Let_def split: prod.splits sum.splits option.splits)

text \<open>
  C3, as the source has it. \<open>eval\<close> switches the model to inference mode and calls the
  evaluation strategy exactly once. When the strategy returns, \<open>eval\<close> returns its
  result with the model in training mode, whatever the mode it found. When the
  strategy raises, the exception leaves \<open>eval\<close> at the call and the model stays in
  inference mode: nothing restores the mode on the error path.
\<close>

theorem eval_mode_outcome:
  "events (snd (eval S solver e)) = events solver @ [Eval_pass e]
   \<and> (case fst (eval_func S (ext solver) e) of
         Inr m \<Rightarrow> fst (eval S solver e) = Inr m
                   \<and> model_mode (snd (eval S solver e)) = Train_mode
       | Inl err \<Rightarrow> fst (eval S solver e) = Inl err
                   \<and> model_mode (snd (eval S solver e)) = Eval_mode)"
  by (auto simp: eval_result split: prod.splits sum.splits)

theorem eval_mode_outcome_witness:
  "events (snd (eval steady_strategies solver0 4)) = [Eval_pass 4]
   \<and> fst (eval steady_strategies solver0 4) = Inr (Fin 4)
   \<and> model_mode (snd (eval steady_strategies solver0 4)) = Train_mode
   \<and> fst (eval failing_strategies solver0 4) = Inl (Raised ''eval_func'')
   \<and> model_mode (snd (eval failing_strategies solver0 4)) = Eval_mode"
  using eval_mode_outcome [of steady_strategies solver0 4]
    eval_mode_outcome [of failing_strategies solver0 4]
  by (simp add: steady_strategies_def failing_strategies_def solver0_def)

text \<open>
  A model found in training mode is left in inference mode when the strategy raises,
  and a model found in inference mode is left in training mode when it returns.
\<close>

theorem eval_error_path_counterexample:
  "model_mode solver0 = Train_mode
   \<and> fst (eval failing_strategies solver0 0) = Inl (Raised ''eval_func'')
   \<and> model_mode (snd (eval failing_strategies solver0 0)) = Eval_mode
   \<and> model_mode (solver0\<lparr>model_mode := Eval_mode\<rparr>) = Eval_mode
   \<and> model_mode (snd (eval steady_strategies (solver0\<lparr>model_mode := Eval_mode\<rparr>) 0)) = Train_mode"
  by (simp add: eval_result failing_strategies_def steady_strategies_def solver0_def)

subsection \<open>The schedule of evaluations and checkpoints\<close>

lemma obs_append [simp]:
  "eval_epochs (xs @ ys) = eval_epochs xs @ eval_epochs ys"
  "saves tg (xs @ ys) = saves tg xs @ saves tg ys"
  "epoch_tags (xs @ ys) = epoch_tags xs @ epoch_tags ys"
  "scalars (xs @ ys) = scalars xs @ scalars ys"
  by (simp_all add: eval_epochs_def saves_def epoch_tags_def scalars_def)

lemma obs_Nil [simp]:
  "eval_epochs [] = []" "saves tg [] = []" "epoch_tags [] = []" "scalars [] = []"
  by (simp_all add: eval_epochs_def saves_def epoch_tags_def scalars_def)

lemma obs_Cons [simp]:
  "eval_epochs (ev # evs) = (case ev of Eval_pass e \<Rightarrow> [e] | _ \<Rightarrow> []) @ eval_epochs evs"
  "saves tg (ev # evs) =
     (case ev of Save_checkpoint m tg' \<Rightarrow> (if tg' = tg then [m] else []) | _ \<Rightarrow> []) @ saves tg evs"
  "epoch_tags (ev # evs) =
     (case ev of Save_checkpoint m (Epoch_N n) \<Rightarrow> [n] | _ \<Rightarrow> []) @ epoch_tags evs"
  "scalars (ev # evs) = (case ev of Log_scalar m e \<Rightarrow> [(m, e)] | _ \<Rightarrow> []) @ scalars evs"
  by (simp_all add: eval_epochs_def saves_def epoch_tags_def scalars_def)

lemma train_epoch_schedule:
  assumes tr: "\<forall>x e. \<not> isl (fst (train_epoch_func S x e))"
    and ev: "\<forall>x e. \<not> isl (fst (eval_func S x e))"
    and nz: "eval_during_train C \<longrightarrow> eval_freq C \<noteq> 0"
  shows "\<exists>bm' s'. train_epoch C S e (bm, s) = (Inr (), bm', s')
           \<and> eval_epochs (events s') = eval_epochs (events s) @ (if eval_due C e then [e] else [])
           \<and> map epoch (saves Latest (events s')) = map epoch (saves Latest (events s)) @ [e]
           \<and> epoch_tags (events s') = epoch_tags (events s) @ (if save_due C e then [e] else [])"
proof -
  obtain u x where t: "train_epoch_func S (ext s) e = (Inr u, x)"
    using tr by (metis isl_def old.sum.exhaust prod.collapse)
  obtain m y where v: "eval_func S x e = (Inr m, y)"
    using ev by (metis isl_def old.sum.exhaust prod.collapse)
  show ?thesis
    using t v nz
    by (auto simp: train_epoch_def eval_result emit_def Let_def eval_due_def save_due_def
        split: prod.splits sum.splits)
qed


lemma train_loop_schedule:
  assumes tr: "\<forall>x e. \<not> isl (fst (train_epoch_func S x e))"
    and ev: "\<forall>x e. \<not> isl (fst (eval_func S x e))"
    and nz: "eval_during_train C \<longrightarrow> eval_freq C \<noteq> 0"
  shows "\<exists>bm' s'. train_loop C S es (bm, s) = (Inr (), bm', s')
           \<and> eval_epochs (events s') = eval_epochs (events s) @ filter (eval_due C) es
           \<and> map epoch (saves Latest (events s')) = map epoch (saves Latest (events s)) @ es
           \<and> epoch_tags (events s') = epoch_tags (events s) @ filter (save_due C) es"
proof (induction es arbitrary: bm s)
  case Nil
  show ?case by simp
next
  case (Cons e es)
  obtain bm1 s1 where step: "train_epoch C S e (bm, s) = (Inr (), bm1, s1)"
    and e1: "eval_epochs (events s1) = eval_epochs (events s) @ (if eval_due C e then [e] else [])"
    and l1: "map epoch (saves Latest (events s1)) = map epoch (saves Latest (events s)) @ [e]"
    and t1: "epoch_tags (events s1) = epoch_tags (events s) @ (if save_due C e then [e] else [])"
    using train_epoch_schedule [OF tr ev nz, of e bm s] by blast
  obtain bm2 s2 where rest: "train_loop C S es (bm1, s1) = (Inr (), bm2, s2)"
    and e2: "eval_epochs (events s2) = eval_epochs (events s1) @ filter (eval_due C) es"
    and l2: "map epoch (saves Latest (events s2)) = map epoch (saves Latest (events s1)) @ es"
    and t2: "epoch_tags (events s2) = epoch_tags (events s1) @ filter (save_due C) es"
    using Cons.IH [of bm1 s1] by blast
  have "train_loop C S (e # es) (bm, s) = (Inr (), bm2, s2)"
    using step rest by simp
  then show ?case
    using e1 e2 l1 l2 t1 t2 by simp
qed

text \<open>
  C1. With strategies that do not raise, a run over 5 epochs with evaluation cadence 2
  from epoch 1 on and checkpoint cadence 3 calls the evaluation exactly at epochs 2
  and 4, writes the \<open>latest\<close> checkpoint once in every epoch, 5 times in all, and
  writes an \<open>epoch_N\<close> checkpoint at epoch 3 only. In general, for any hyper-parameters
  (with a non-zero evaluation cadence when evaluation is on), the evaluation runs at
  exactly the epochs \<open>e\<close> of \<open>1..epochs\<close> with \<open>e mod eval_freq = 0\<close> and
  \<open>e \<ge> start_eval_epoch\<close>, \<open>latest\<close> is written at every epoch, and \<open>epoch_N\<close> at the
  epochs with \<open>save_freq > 0\<close> and \<open>e mod save_freq = 0\<close>.
\<close>

theorem train_schedule:
  assumes tr: "\<forall>x e. \<not> isl (fst (train_epoch_func S x e))"
    and ev: "\<forall>x e. \<not> isl (fst (eval_func S x e))"
  shows "(\<exists>bm' s'.
            train \<lparr>epochs = 5, save_freq = 3, eval_during_train = True, eval_freq = 2,
                   start_eval_epoch = 1\<rparr> S solver = (Inr (), bm', s')
            \<and> eval_epochs (events s') = eval_epochs (events solver) @ [2, 4]
            \<and> map epoch (saves Latest (events s')) =
                map epoch (saves Latest (events solver)) @ [1, 2, 3, 4, 5]
            \<and> epoch_tags (events s') = epoch_tags (events solver) @ [3])
         \<and> ((eval_during_train C \<longrightarrow> eval_freq C \<noteq> 0) \<longrightarrow>
              (\<exists>bm' s'.
                 train C S solver = (Inr (), bm', s')
                 \<and> eval_epochs (events s') =
                     eval_epochs (events solver) @ filter (eval_due C) [1..epochs C]
                 \<and> map epoch (saves Latest (events s')) =
                     map epoch (saves Latest (events solver)) @ [1..epochs C]
                 \<and> epoch_tags (events s') =
                     epoch_tags (events solver) @ filter (save_due C) [1..epochs C]))"
proof -
  have general: "\<exists>bm' s'.
                 train D S solver = (Inr (), bm', s')
                 \<and> eval_epochs (events s') =
                     eval_epochs (events solver) @ filter (eval_due D) [1..epochs D]
                 \<and> map epoch (saves Latest (events s')) =
                     map epoch (saves Latest (events solver)) @ [1..epochs D]
                 \<and> epoch_tags (events s') =
                     epoch_tags (events solver) @ filter (save_due D) [1..epochs D]"
    if nz: "eval_during_train D \<longrightarrow> eval_freq D \<noteq> 0" for D
    using train_loop_schedule [OF tr ev nz, of "[1..epochs D]" "\<lparr>metric = PosInf, epoch = 0\<rparr>"
        "solver\<lparr>has_cfg := True, global_step := Some 0\<rparr>"]
    unfolding train_def Let_def by simp
  let ?C = "\<lparr>epochs = 5, save_freq = 3, eval_during_train = True, eval_freq = 2,
             start_eval_epoch = 1\<rparr>"
  have nz: "eval_during_train ?C \<longrightarrow> eval_freq ?C \<noteq> 0" by simp
  have es: "[1..epochs ?C] = [1, 2, 3, 4, 5]" by (simp add: upto_rec1)
  have fe: "filter (eval_due ?C) [1, 2, 3, 4, 5] = [2, 4]" by (simp add: eval_due_def)
  have fs: "filter (save_due ?C) [1, 2, 3, 4, 5] = [3]" by (simp add: save_due_def)
  have concrete: "\<exists>bm' s'.
            train ?C S solver = (Inr (), bm', s')
            \<and> eval_epochs (events s') = eval_epochs (events solver) @ [2, 4]
            \<and> map epoch (saves Latest (events s')) =
                map epoch (saves Latest (events solver)) @ [1, 2, 3, 4, 5]
            \<and> epoch_tags (events s') = epoch_tags (events solver) @ [3]"
    using general [OF nz] unfolding es fe fs .
  show ?thesis using concrete general by blast
qed

theorem train_schedule_witness:
  "train cfg523 steady_strategies solver0
     = (Inr (), \<lparr>metric = Fin 2, epoch = 2\<rparr>,
        \<lparr>model_mode = Train_mode, has_cfg = True, global_step = Some 0, has_validator = True,
         events =
           [Train_epoch 1, Save_checkpoint \<lparr>metric = PosInf, epoch = 1\<rparr> Latest,
            Train_epoch 2, Eval_pass 2, Save_checkpoint \<lparr>metric = Fin 2, epoch = 2\<rparr> Best_model,
            Log_scalar (Fin 2) 2, Save_checkpoint \<lparr>metric = Fin 2, epoch = 2\<rparr> Latest,
            Train_epoch 3, Save_checkpoint \<lparr>metric = PosInf, epoch = 3\<rparr> (Epoch_N 3),
            Save_checkpoint \<lparr>metric = PosInf, epoch = 3\<rparr> Latest,
            Train_epoch 4, Eval_pass 4, Log_scalar (Fin 4) 4,
            Save_checkpoint \<lparr>metric = Fin 4, epoch = 4\<rparr> Latest,
            Train_epoch 5, Save_checkpoint \<lparr>metric = PosInf, epoch = 5\<rparr> Latest],
         ext = ()\<rparr>)
   \<and> eval_epochs (events (snd (snd (train cfg523 steady_strategies solver0)))) = [2, 4]
   \<and> length (saves Latest (events (snd (snd (train cfg523 steady_strategies solver0))))) = 5
   \<and> epoch_tags (events (snd (snd (train cfg523 steady_strategies solver0)))) = [3]"
  using train_schedule [of steady_strategies solver0 cfg523]
  by (simp add: train_def train_epoch_def eval_result emit_def Let_def upto_rec1
      steady_strategies_def solver0_def cfg523_def)

subsection \<open>The best metric\<close>








section \<open>Properties of the model builder\<close>

lemma deepcopy_frame:
  "deepcopy h p = (h1, q) \<Longrightarrow>
     q = next_free h \<and> objs h1 q = objs h p \<and> next_free h1 = Suc (next_free h)
     \<and> (\<forall>a. a \<noteq> q \<longrightarrow> objs h1 a = objs h a)"
  by (auto simp: deepcopy_def Let_def)

lemma dict_pop_frame:
  "dict_pop h q key = (r, h2) \<Longrightarrow>
     next_free h2 = next_free h \<and> (\<forall>a. a \<noteq> q \<longrightarrow> objs h2 a = objs h a)"
  by (auto simp: dict_pop_def split: option.splits)

text \<open>
  C10. \<open>build_model\<close> never changes the configuration it is given: for every heap and
  every configuration object of it, the object holds after the call what it held
  before, and so does every other object that existed before, whether the call
  returns a model or raises. The \<open>name\<close> key is removed from the deep copy only, the
  new object at the first free address.
\<close>

theorem build_model_frame:
  assumes "p < next_free h"
  shows "objs (snd (build_model arch_of h p)) p = objs h p
         \<and> (\<forall>a<next_free h. objs (snd (build_model arch_of h p)) a = objs h a)
         \<and> (case map_of (objs h p) ''name'' of
               None \<Rightarrow> fst (build_model arch_of h p) = Inl KeyError
                        \<and> objs (snd (build_model arch_of h p)) (next_free h) = objs h p
             | Some v \<Rightarrow> objs (snd (build_model arch_of h p)) (next_free h)
                          = filter (\<lambda>kv. fst kv \<noteq> ''name'') (objs h p))"
proof -
  obtain h1 q where d: "deepcopy h p = (h1, q)" by (cases "deepcopy h p")
  obtain r h2 where pp: "dict_pop h1 q ''name'' = (r, h2)" by (cases "dict_pop h1 q ''name''")
  have q: "q = next_free h" and cp: "objs h1 q = objs h p"
    and f1: "\<forall>a. a \<noteq> q \<longrightarrow> objs h1 a = objs h a"
    using deepcopy_frame [OF d] by blast+
  have f2: "\<forall>a. a \<noteq> q \<longrightarrow> objs h2 a = objs h1 a"
    using dict_pop_frame [OF pp] by simp
  have s: "snd (build_model arch_of h p) = h2"
    using d pp by (auto simp: build_model_def split: sum.splits cfg_value.splits)
  have old: "\<forall>a<next_free h. objs h2 a = objs h a"
    using f1 f2 q by simp
  have copy: "case map_of (objs h p) ''name'' of
               None \<Rightarrow> fst (build_model arch_of h p) = Inl KeyError \<and> objs h2 q = objs h p
             | Some v \<Rightarrow> objs h2 q = filter (\<lambda>kv. fst kv \<noteq> ''name'') (objs h p)"
    using d pp cp
    by (auto simp: build_model_def dict_pop_def split: option.splits)
  show ?thesis
    using s old copy assms q by (auto split: option.splits)
qed

theorem build_model_frame_witness:
  "0 < next_free heap0
   \<and> fst (build_model known_arch heap0 0) = Inr [(''num_layers'', Num 5)]
   \<and> objs (snd (build_model known_arch heap0 0)) 0
       = [(''name'', Str ''MLP''), (''num_layers'', Num 5)]
   \<and> objs (snd (build_model known_arch heap0 0)) 1 = [(''num_layers'', Num 5)]"
  using build_model_frame [of 0 heap0 known_arch]
  by (simp add: build_model_def deepcopy_def dict_pop_def heap0_def known_arch_def Let_def)

end
